theory Spec2Isabelle
  imports Main "HOL-Library.Word" "HOL-Library.Multiset"
begin

section \<open>The cell format of QtXlsxWriter: \<^verbatim>\<open>src/xlsx/xlsxformat.cpp\<close>\<close>

text \<open>
  The development embeds \<^verbatim>\<open>class Format\<close> and its private data
  \<^verbatim>\<open>FormatPrivate\<close>. A C++ \<^verbatim>\<open>int\<close> is a 32-bit word compared as a signed
  value, a \<^verbatim>\<open>QString\<close> is a \<open>string\<close>, a \<^verbatim>\<open>QByteArray\<close> is an optional
  byte list (\<open>None\<close> is the null array). Every setter is a function from the private
  data to the updated private data; the \<^verbatim>\<open>const\<close> key functions, which write
  their caches through \<^verbatim>\<open>d\<close>, return the key together with the updated data.
\<close>

subsection \<open>Values\<close>

type_synonym cint = "32 word"
type_synonym byte = "8 word"
type_synonym QString = string
type_synonym QByteArray = "byte list option"

text \<open>Only \<^verbatim>\<open>QColor::isValid()\<close> is consulted by the source.\<close>

datatype QColor = QColor_invalid | QColor_rgba "32 word"

fun isValid :: "QColor \<Rightarrow> bool" where
  "isValid QColor_invalid = False"
| "isValid (QColor_rgba _) = True"

text \<open>
  The enumerators the source names. The enumerations whose enumerators the source never
  names (font script, underline, border style, diagonal type) are kept as their integer
  value; a fill pattern other than the two named ones carries its integer value.
\<close>

datatype HorizontalAlignment =
  AlignHGeneral | AlignLeft | AlignHCenter | AlignRight
  | AlignHFill | AlignHJustify | AlignHMerge | AlignHDistributed

datatype VerticalAlignment =
  AlignTop | AlignVCenter | AlignBottom | AlignVJustify | AlignVDistributed

datatype FillPattern = PatternNone | PatternSolid | PatternOther cint

type_synonym FontScript = cint
type_synonym FontUnderline = cint
type_synonym BorderStyle = cint
type_synonym DiagonalBorderType = cint

subsection \<open>The attribute bundles and \<^verbatim>\<open>FormatPrivate\<close>\<close>

text \<open>
  The bundle structs are used by the source field by field. A field
  \<^verbatim>\<open>d->fontData.size\<close> is \<open>font_size (fontData d)\<close>: each field carries the
  prefix of its bundle, and the members \<^verbatim>\<open>_dirty\<close>, \<^verbatim>\<open>_valid\<close>,
  \<^verbatim>\<open>_index\<close>, \<^verbatim>\<open>_indexValid\<close> and \<^verbatim>\<open>_key\<close> lose their leading underscore.
\<close>

record XlsxFormatNumberData =
  num_formatIndex :: cint
  num_formatString :: QString
  num_valid :: bool

record XlsxFormatFontData =
  font_size :: cint
  font_italic :: bool
  font_strikeOut :: bool
  font_color :: QColor
  font_themeColor :: QString
  font_bold :: bool
  font_scirpt :: FontScript
  font_underline :: FontUnderline
  font_outline :: bool
  font_shadow :: bool
  font_name :: QString
  font_family :: cint
  font_scheme :: QString
  font_dirty :: bool
  font_indexValid :: bool
  font_index :: cint
  font_key :: QByteArray

record XlsxFormatAlignmentData =
  align_alignH :: HorizontalAlignment
  align_alignV :: VerticalAlignment
  align_wrap :: bool
  align_rotation :: cint
  align_indent :: cint
  align_shinkToFit :: bool

record XlsxFormatBorderData =
  border_left :: BorderStyle
  border_right :: BorderStyle
  border_top :: BorderStyle
  border_bottom :: BorderStyle
  border_diagonal :: BorderStyle
  border_leftColor :: QColor
  border_rightColor :: QColor
  border_topColor :: QColor
  border_bottomColor :: QColor
  border_diagonalColor :: QColor
  border_diagonalType :: DiagonalBorderType
  border_dirty :: bool
  border_indexValid :: bool
  border_index :: cint
  border_key :: QByteArray

record XlsxFormatFillData =
  fill_pattern :: FillPattern
  fill_bgColor :: QColor
  fill_fgColor :: QColor
  fill_dirty :: bool
  fill_indexValid :: bool
  fill_index :: cint
  fill_key :: QByteArray

record XlsxFormatProtectionData =
  prot_locked :: bool
  prot_hidden :: bool

text \<open>
  The members of \<^verbatim>\<open>FormatPrivate\<close>, in the order of its copy constructor. The
  cached key \<^verbatim>\<open>d->formatKey\<close> is \<open>formatKey_cached\<close>, since \<open>formatKey\<close> is the
  member function.
\<close>

record FormatPrivate =
  numberData :: XlsxFormatNumberData
  fontData :: XlsxFormatFontData
  alignmentData :: XlsxFormatAlignmentData
  borderData :: XlsxFormatBorderData
  fillData :: XlsxFormatFillData
  protectionData :: XlsxFormatProtectionData
  dirty :: bool
  formatKey_cached :: QByteArray
  xf_index :: cint
  xf_indexValid :: bool
  is_dxf_fomat :: bool
  dxf_index :: cint
  dxf_indexValid :: bool
  theme :: cint

text \<open>
  \<^verbatim>\<open>FormatPrivate::FormatPrivate()\<close>. The six bundles are default-constructed by
  constructors of \<^verbatim>\<open>xlsxformat_p.h\<close>; they are arguments here. The cached key is
  a default-constructed, hence null, \<^verbatim>\<open>QByteArray\<close>.
\<close>

definition FormatPrivate_init ::
  "XlsxFormatNumberData \<Rightarrow> XlsxFormatFontData \<Rightarrow> XlsxFormatAlignmentData \<Rightarrow>
   XlsxFormatBorderData \<Rightarrow> XlsxFormatFillData \<Rightarrow> XlsxFormatProtectionData \<Rightarrow> FormatPrivate" where
  "FormatPrivate_init nd fd ad bd ld pd =
     \<lparr> numberData = nd, fontData = fd, alignmentData = ad,
       borderData = bd, fillData = ld, protectionData = pd,
       dirty = True, formatKey_cached = None,
       xf_index = - 1, xf_indexValid = False,
       is_dxf_fomat = False, dxf_index = - 1, dxf_indexValid = False,
       theme = 0 \<rparr>"

text \<open>\<^verbatim>\<open>FormatPrivate::FormatPrivate(const FormatPrivate &other)\<close>: member by member.\<close>

definition FormatPrivate_copy :: "FormatPrivate \<Rightarrow> FormatPrivate" where
  "FormatPrivate_copy other =
     \<lparr> numberData = numberData other, fontData = fontData other,
       alignmentData = alignmentData other,
       borderData = borderData other, fillData = fillData other,
       protectionData = protectionData other,
       dirty = dirty other, formatKey_cached = formatKey_cached other,
       xf_index = xf_index other, xf_indexValid = xf_indexValid other,
       is_dxf_fomat = is_dxf_fomat other, dxf_index = dxf_index other,
       dxf_indexValid = dxf_indexValid other,
       theme = theme other \<rparr>"

subsection \<open>Number format\<close>


definition setNumberFormatIndex :: "cint \<Rightarrow> FormatPrivate \<Rightarrow> FormatPrivate" where
  "setNumberFormatIndex format d =
     d\<lparr> dirty := True,
        numberData := (numberData d)\<lparr> num_formatIndex := format, num_valid := True \<rparr> \<rparr>"


definition setNumberFormat :: "QString \<Rightarrow> FormatPrivate \<Rightarrow> FormatPrivate" where
  "setNumberFormat format d =
     (if format = [] then d
      else d\<lparr> dirty := True,
              numberData := (numberData d)\<lparr> num_formatString := format, num_valid := False \<rparr> \<rparr>)"



text \<open>
  \<^verbatim>\<open>isDateTimeFormat\<close> removes the matches of the regular expression
  \<^verbatim>\<open>\[(Green|White|Blue|Magenta|Yellow|Cyan|Red)\]\<close> and then looks for a match of
  \<^verbatim>\<open>[dmhys]\<close>. \<open>stripPrefix p s\<close> is the rest of \<open>s\<close> after the literal \<open>p\<close>;
  \<open>matchColor\<close> tries the alternatives in the order of the pattern at the start of the
  string; \<open>removeColors\<close> scans from the left, drops a match and goes on behind it, as
  \<^verbatim>\<open>QString::remove\<close> does with the successive matches.
\<close>

definition colorNames :: "string list" where
  "colorNames = [''Green'', ''White'', ''Blue'', ''Magenta'', ''Yellow'', ''Cyan'', ''Red'']"

fun stripPrefix :: "string \<Rightarrow> string \<Rightarrow> string option" where
  "stripPrefix [] s = Some s"
| "stripPrefix (p # ps) [] = None"
| "stripPrefix (p # ps) (c # cs) = (if p = c then stripPrefix ps cs else None)"

fun matchAlternatives :: "string list \<Rightarrow> string \<Rightarrow> string option" where
  "matchAlternatives [] s = None"
| "matchAlternatives (n # ns) s =
     (case stripPrefix (''['' @ n @ '']'') s of
        Some rest \<Rightarrow> Some rest
      | None \<Rightarrow> matchAlternatives ns s)"

definition matchColor :: "string \<Rightarrow> string option" where
  "matchColor s = matchAlternatives colorNames s"

function removeColors :: "string \<Rightarrow> string" where
  "removeColors [] = []"
| "removeColors (c # cs) =
     (case matchColor (c # cs) of
        Some rest \<Rightarrow> removeColors rest
      | None \<Rightarrow> c # removeColors cs)"
  by pat_completeness auto
termination
proof (relation "measure length")
  show "wf (measure length)" by simp
next
  fix c :: char and cs rest :: string
  assume m: "matchColor (c # cs) = Some rest"
  have strip: "stripPrefix p s = Some r \<Longrightarrow> length s = length p + length r" for p s r
    by (induction p s rule: stripPrefix.induct) (auto split: if_splits)
  have alt: "matchAlternatives ns s = Some r \<Longrightarrow> length r < length s" for ns s r
    by (induction ns) (auto split: option.splits dest: strip)
  from m show "(rest, c # cs) \<in> measure length"
    using alt [of colorNames "c # cs" rest] by (simp add: matchColor_def)
next
  fix c :: char and cs :: string
  show "(cs, c # cs) \<in> measure length" by simp
qed



subsection \<open>Font\<close>

definition fontSize :: "FormatPrivate \<Rightarrow> cint" where
  "fontSize d = font_size (fontData d)"

definition setFontSize :: "cint \<Rightarrow> FormatPrivate \<Rightarrow> FormatPrivate" where
  "setFontSize sz d = d\<lparr> fontData := (fontData d)\<lparr> font_size := sz, font_dirty := True \<rparr> \<rparr>"

definition setFontItalic :: "bool \<Rightarrow> FormatPrivate \<Rightarrow> FormatPrivate" where
  "setFontItalic italic d =
     d\<lparr> fontData := (fontData d)\<lparr> font_italic := italic, font_dirty := True \<rparr> \<rparr>"

definition setFontStrikeOut :: "bool \<Rightarrow> FormatPrivate \<Rightarrow> FormatPrivate" where
  "setFontStrikeOut strikeOut d =
     d\<lparr> fontData := (fontData d)\<lparr> font_strikeOut := strikeOut, font_dirty := True \<rparr> \<rparr>"

definition fontColor :: "FormatPrivate \<Rightarrow> QColor" where
  "fontColor d =
     (if \<not> isValid (font_color (fontData d)) \<and> font_themeColor (fontData d) \<noteq> []
      then QColor_invalid
      else font_color (fontData d))"

definition setFontColor :: "QColor \<Rightarrow> FormatPrivate \<Rightarrow> FormatPrivate" where
  "setFontColor color d =
     d\<lparr> fontData := (fontData d)\<lparr> font_color := color, font_dirty := True \<rparr> \<rparr>"

definition setFontBold :: "bool \<Rightarrow> FormatPrivate \<Rightarrow> FormatPrivate" where
  "setFontBold bold d =
     d\<lparr> fontData := (fontData d)\<lparr> font_bold := bold, font_dirty := True \<rparr> \<rparr>"

definition setFontScript :: "FontScript \<Rightarrow> FormatPrivate \<Rightarrow> FormatPrivate" where
  "setFontScript script d =
     d\<lparr> fontData := (fontData d)\<lparr> font_scirpt := script, font_dirty := True \<rparr> \<rparr>"

definition setFontUnderline :: "FontUnderline \<Rightarrow> FormatPrivate \<Rightarrow> FormatPrivate" where
  "setFontUnderline underline d =
     d\<lparr> fontData := (fontData d)\<lparr> font_underline := underline, font_dirty := True \<rparr> \<rparr>"

definition setFontOutline :: "bool \<Rightarrow> FormatPrivate \<Rightarrow> FormatPrivate" where
  "setFontOutline outline d =
     d\<lparr> fontData := (fontData d)\<lparr> font_outline := outline, font_dirty := True \<rparr> \<rparr>"

definition setFontName :: "QString \<Rightarrow> FormatPrivate \<Rightarrow> FormatPrivate" where
  "setFontName nm d =
     d\<lparr> fontData := (fontData d)\<lparr> font_name := nm, font_dirty := True \<rparr> \<rparr>"

subsection \<open>Alignment\<close>

definition horizontalAlignment :: "FormatPrivate \<Rightarrow> HorizontalAlignment" where
  "horizontalAlignment d = align_alignH (alignmentData d)"

definition setHorizontalAlignment :: "HorizontalAlignment \<Rightarrow> FormatPrivate \<Rightarrow> FormatPrivate" where
  "setHorizontalAlignment align d =
     (let a0 = alignmentData d;
          a1 = (if align_indent a0 \<noteq> 0 \<and>
                   (align \<noteq> AlignHGeneral \<and> align \<noteq> AlignLeft \<and>
                    align \<noteq> AlignRight \<and> align \<noteq> AlignHDistributed)
                then a0\<lparr> align_indent := 0 \<rparr> else a0);
          a2 = (if align_shinkToFit a1 \<and>
                   (align = AlignHFill \<or> align = AlignHJustify \<or> align = AlignHDistributed)
                then a1\<lparr> align_shinkToFit := False \<rparr> else a1)
      in d\<lparr> alignmentData := a2\<lparr> align_alignH := align \<rparr>, dirty := True \<rparr>)"


definition setVerticalAlignment :: "VerticalAlignment \<Rightarrow> FormatPrivate \<Rightarrow> FormatPrivate" where
  "setVerticalAlignment align d =
     d\<lparr> alignmentData := (alignmentData d)\<lparr> align_alignV := align \<rparr>, dirty := True \<rparr>"

definition textWrap :: "FormatPrivate \<Rightarrow> bool" where
  "textWrap d = align_wrap (alignmentData d)"

definition setTextWarp :: "bool \<Rightarrow> FormatPrivate \<Rightarrow> FormatPrivate" where
  "setTextWarp wrap d =
     (let a0 = alignmentData d;
          a1 = (if wrap \<and> align_shinkToFit a0 then a0\<lparr> align_shinkToFit := False \<rparr> else a0)
      in d\<lparr> alignmentData := a1\<lparr> align_wrap := wrap \<rparr>, dirty := True \<rparr>)"


definition setRotation :: "cint \<Rightarrow> FormatPrivate \<Rightarrow> FormatPrivate" where
  "setRotation rot d =
     d\<lparr> alignmentData := (alignmentData d)\<lparr> align_rotation := rot \<rparr>, dirty := True \<rparr>"

definition indent :: "FormatPrivate \<Rightarrow> cint" where
  "indent d = align_indent (alignmentData d)"

definition setIndent :: "cint \<Rightarrow> FormatPrivate \<Rightarrow> FormatPrivate" where
  "setIndent ind d =
     (let a0 = alignmentData d;
          a1 = (if ind \<noteq> 0 \<and>
                   (align_alignH a0 \<noteq> AlignHGeneral \<and> align_alignH a0 \<noteq> AlignLeft \<and>
                    align_alignH a0 \<noteq> AlignRight \<and> align_alignH a0 \<noteq> AlignHJustify)
                then a0\<lparr> align_alignH := AlignLeft \<rparr> else a0)
      in d\<lparr> alignmentData := a1\<lparr> align_indent := ind \<rparr>, dirty := True \<rparr>)"

definition shrinkToFit :: "FormatPrivate \<Rightarrow> bool" where
  "shrinkToFit d = align_shinkToFit (alignmentData d)"

definition setShrinkToFit :: "bool \<Rightarrow> FormatPrivate \<Rightarrow> FormatPrivate" where
  "setShrinkToFit shink d =
     (let a0 = alignmentData d;
          a1 = (if shink \<and> align_wrap a0 then a0\<lparr> align_wrap := False \<rparr> else a0);
          a2 = (if shink \<and>
                   (align_alignH a1 = AlignHFill \<or> align_alignH a1 = AlignHJustify \<or>
                    align_alignH a1 = AlignHDistributed)
                then a1\<lparr> align_alignH := AlignLeft \<rparr> else a1)
      in d\<lparr> alignmentData := a2\<lparr> align_shinkToFit := shink \<rparr>, dirty := True \<rparr>)"

definition alignmentChanged :: "FormatPrivate \<Rightarrow> bool" where
  "alignmentChanged d =
     (align_alignH (alignmentData d) \<noteq> AlignHGeneral
      \<or> align_alignV (alignmentData d) \<noteq> AlignBottom
      \<or> align_indent (alignmentData d) \<noteq> 0
      \<or> align_wrap (alignmentData d)
      \<or> align_rotation (alignmentData d) \<noteq> 0
      \<or> align_shinkToFit (alignmentData d))"

subsection \<open>Border\<close>

definition setLeftBorderStyle :: "BorderStyle \<Rightarrow> FormatPrivate \<Rightarrow> FormatPrivate" where
  "setLeftBorderStyle style d =
     d\<lparr> borderData := (borderData d)\<lparr> border_left := style, border_dirty := True \<rparr> \<rparr>"

definition setLeftBorderColor :: "QColor \<Rightarrow> FormatPrivate \<Rightarrow> FormatPrivate" where
  "setLeftBorderColor color d =
     d\<lparr> borderData := (borderData d)\<lparr> border_leftColor := color, border_dirty := True \<rparr> \<rparr>"

definition setRightBorderStyle :: "BorderStyle \<Rightarrow> FormatPrivate \<Rightarrow> FormatPrivate" where
  "setRightBorderStyle style d =
     d\<lparr> borderData := (borderData d)\<lparr> border_right := style, border_dirty := True \<rparr> \<rparr>"

definition setRightBorderColor :: "QColor \<Rightarrow> FormatPrivate \<Rightarrow> FormatPrivate" where
  "setRightBorderColor color d =
     d\<lparr> borderData := (borderData d)\<lparr> border_rightColor := color, border_dirty := True \<rparr> \<rparr>"

definition setTopBorderStyle :: "BorderStyle \<Rightarrow> FormatPrivate \<Rightarrow> FormatPrivate" where
  "setTopBorderStyle style d =
     d\<lparr> borderData := (borderData d)\<lparr> border_top := style, border_dirty := True \<rparr> \<rparr>"

definition setTopBorderColor :: "QColor \<Rightarrow> FormatPrivate \<Rightarrow> FormatPrivate" where
  "setTopBorderColor color d =
     d\<lparr> borderData := (borderData d)\<lparr> border_topColor := color, border_dirty := True \<rparr> \<rparr>"

definition setBottomBorderStyle :: "BorderStyle \<Rightarrow> FormatPrivate \<Rightarrow> FormatPrivate" where
  "setBottomBorderStyle style d =
     d\<lparr> borderData := (borderData d)\<lparr> border_bottom := style, border_dirty := True \<rparr> \<rparr>"

definition setBottomBorderColor :: "QColor \<Rightarrow> FormatPrivate \<Rightarrow> FormatPrivate" where
  "setBottomBorderColor color d =
     d\<lparr> borderData := (borderData d)\<lparr> border_bottomColor := color, border_dirty := True \<rparr> \<rparr>"

definition setDiagonalBorderStyle :: "BorderStyle \<Rightarrow> FormatPrivate \<Rightarrow> FormatPrivate" where
  "setDiagonalBorderStyle style d =
     d\<lparr> borderData := (borderData d)\<lparr> border_diagonal := style, border_dirty := True \<rparr> \<rparr>"

definition setDiagonalBorderType :: "DiagonalBorderType \<Rightarrow> FormatPrivate \<Rightarrow> FormatPrivate" where
  "setDiagonalBorderType style d =
     d\<lparr> borderData := (borderData d)\<lparr> border_diagonalType := style, border_dirty := True \<rparr> \<rparr>"

definition setDiagonalBorderColor :: "QColor \<Rightarrow> FormatPrivate \<Rightarrow> FormatPrivate" where
  "setDiagonalBorderColor color d =
     d\<lparr> borderData := (borderData d)\<lparr> border_diagonalColor := color, border_dirty := True \<rparr> \<rparr>"

definition setBorderStyle :: "BorderStyle \<Rightarrow> FormatPrivate \<Rightarrow> FormatPrivate" where
  "setBorderStyle style d =
     setTopBorderStyle style
       (setBottomBorderStyle style
         (setRightBorderStyle style
           (setLeftBorderStyle style d)))"

definition setBorderColor :: "QColor \<Rightarrow> FormatPrivate \<Rightarrow> FormatPrivate" where
  "setBorderColor color d =
     setBottomBorderColor color
       (setTopBorderColor color
         (setRightBorderColor color
           (setLeftBorderColor color d)))"

subsection \<open>Fill\<close>

definition fillPattern :: "FormatPrivate \<Rightarrow> FillPattern" where
  "fillPattern d = fill_pattern (fillData d)"

definition setFillPattern :: "FillPattern \<Rightarrow> FormatPrivate \<Rightarrow> FormatPrivate" where
  "setFillPattern pattern d =
     d\<lparr> fillData := (fillData d)\<lparr> fill_pattern := pattern, fill_dirty := True \<rparr> \<rparr>"

definition setPatternForegroundColor :: "QColor \<Rightarrow> FormatPrivate \<Rightarrow> FormatPrivate" where
  "setPatternForegroundColor color d =
     (let l0 = fillData d;
          l1 = (if isValid color \<and> fill_pattern l0 = PatternNone
                then l0\<lparr> fill_pattern := PatternSolid \<rparr> else l0)
      in d\<lparr> fillData := l1\<lparr> fill_fgColor := color, fill_dirty := True \<rparr> \<rparr>)"

definition setPatternBackgroundColor :: "QColor \<Rightarrow> FormatPrivate \<Rightarrow> FormatPrivate" where
  "setPatternBackgroundColor color d =
     (let l0 = fillData d;
          l1 = (if isValid color \<and> fill_pattern l0 = PatternNone
                then l0\<lparr> fill_pattern := PatternSolid \<rparr> else l0)
      in d\<lparr> fillData := l1\<lparr> fill_bgColor := color, fill_dirty := True \<rparr> \<rparr>)"

subsection \<open>Protection\<close>


definition setHidden :: "bool \<Rightarrow> FormatPrivate \<Rightarrow> FormatPrivate" where
  "setHidden h d =
     d\<lparr> protectionData := (protectionData d)\<lparr> prot_hidden := h \<rparr>, dirty := True \<rparr>"


definition setLocked :: "bool \<Rightarrow> FormatPrivate \<Rightarrow> FormatPrivate" where
  "setLocked l d =
     d\<lparr> protectionData := (protectionData d)\<lparr> prot_locked := l \<rparr>, dirty := True \<rparr>"

subsection \<open>The keys\<close>

text \<open>
  What \<^verbatim>\<open>QDataStream\<close> (big-endian, its default) writes for the operands of
  \<^verbatim>\<open>formatKey\<close>: an \<^verbatim>\<open>int\<close> or an enumerator (converted to \<^verbatim>\<open>int\<close>) as four
  bytes, a \<^verbatim>\<open>bool\<close> as one byte, a \<^verbatim>\<open>QByteArray\<close> as its length on four bytes
  and its bytes, the null array as \<^verbatim>\<open>0xFFFFFFFF\<close>.
\<close>

definition stream_qint32 :: "cint \<Rightarrow> byte list" where
  "stream_qint32 w =
     [ucast (drop_bit 24 w), ucast (drop_bit 16 w), ucast (drop_bit 8 w), ucast w]"

definition stream_bool :: "bool \<Rightarrow> byte list" where
  "stream_bool b = [if b then 1 else 0]"

fun stream_QByteArray :: "QByteArray \<Rightarrow> byte list" where
  "stream_QByteArray None = [255, 255, 255, 255]"
| "stream_QByteArray (Some bs) = stream_qint32 (of_nat (length bs)) @ bs"

text \<open>\<^verbatim>\<open>operator==\<close> of \<^verbatim>\<open>QByteArray\<close> compares sizes and bytes: the null and the
  empty array are equal.\<close>

fun bytesOf :: "QByteArray \<Rightarrow> byte list" where
  "bytesOf None = []"
| "bytesOf (Some bs) = bs"

definition QByteArray_eq :: "QByteArray \<Rightarrow> QByteArray \<Rightarrow> bool" where
  "QByteArray_eq a b = (bytesOf a = bytesOf b)"

text \<open>
  The declarations of \<^verbatim>\<open>xlsxformat.h\<close> and \<^verbatim>\<open>xlsxformat_p.h\<close> that the key
  functions use and the source file does not contain are parameters: the bytes that
  each bundle streams into its own key, and the integer values of the alignment
  enumerators.
\<close>

record decls =
  fontBytes :: "XlsxFormatFontData \<Rightarrow> byte list"
  borderBytes :: "XlsxFormatBorderData \<Rightarrow> byte list"
  fillBytes :: "XlsxFormatFillData \<Rightarrow> byte list"
  alignHCode :: "HorizontalAlignment \<Rightarrow> cint"
  alignVCode :: "VerticalAlignment \<Rightarrow> cint"

text \<open>
  Modelled from the spec: \<^verbatim>\<open>XlsxFormatFontData::key()\<close>,
  \<^verbatim>\<open>XlsxFormatBorderData::key()\<close> and \<^verbatim>\<open>XlsxFormatFillData::key()\<close> are members
  of the bundle structs of \<^verbatim>\<open>xlsxformat_p.h\<close>. The spec (4.2): the canonical sub-key
  for this bundle alone, recomputed lazily when the bundle's own dirty flag is set,
  clearing that flag.
\<close>

definition XlsxFormatFontData_key ::
  "(XlsxFormatFontData \<Rightarrow> byte list) \<Rightarrow> XlsxFormatFontData \<Rightarrow> QByteArray \<times> XlsxFormatFontData" where
  "XlsxFormatFontData_key ser f =
     (if font_dirty f
      then (let key = Some (ser f) in (key, f\<lparr> font_key := key, font_dirty := False \<rparr>))
      else (font_key f, f))"

definition XlsxFormatBorderData_key ::
  "(XlsxFormatBorderData \<Rightarrow> byte list) \<Rightarrow> XlsxFormatBorderData \<Rightarrow> QByteArray \<times> XlsxFormatBorderData" where
  "XlsxFormatBorderData_key ser b =
     (if border_dirty b
      then (let key = Some (ser b) in (key, b\<lparr> border_key := key, border_dirty := False \<rparr>))
      else (border_key b, b))"

definition XlsxFormatFillData_key ::
  "(XlsxFormatFillData \<Rightarrow> byte list) \<Rightarrow> XlsxFormatFillData \<Rightarrow> QByteArray \<times> XlsxFormatFillData" where
  "XlsxFormatFillData_key ser l =
     (if fill_dirty l
      then (let key = Some (ser l) in (key, l\<lparr> fill_key := key, fill_dirty := False \<rparr>))
      else (fill_key l, l))"

definition fontKey :: "decls \<Rightarrow> FormatPrivate \<Rightarrow> QByteArray \<times> FormatPrivate" where
  "fontKey h d =
     (let d1 = (if font_dirty (fontData d) then d\<lparr> dirty := True \<rparr> else d);
          (key, f) = XlsxFormatFontData_key (fontBytes h) (fontData d1)
      in (key, d1\<lparr> fontData := f \<rparr>))"

definition borderKey :: "decls \<Rightarrow> FormatPrivate \<Rightarrow> QByteArray \<times> FormatPrivate" where
  "borderKey h d =
     (let d1 = (if border_dirty (borderData d) then d\<lparr> dirty := True \<rparr> else d);
          (key, b) = XlsxFormatBorderData_key (borderBytes h) (borderData d1)
      in (key, d1\<lparr> borderData := b \<rparr>))"

definition fillKey :: "decls \<Rightarrow> FormatPrivate \<Rightarrow> QByteArray \<times> FormatPrivate" where
  "fillKey h d =
     (let d1 = (if fill_dirty (fillData d) then d\<lparr> dirty := True \<rparr> else d);
          (key, l) = XlsxFormatFillData_key (fillBytes h) (fillData d1)
      in (key, d1\<lparr> fillData := l \<rparr>))"

text \<open>
  \<^verbatim>\<open>formatKey\<close>: the three sub-keys are taken in the order in which they are
  streamed (they write disjoint members, so the order of evaluation of the operands
  does not matter); \<open>streamFields\<close> is the rest of the \<^verbatim>\<open><<\<close> chain.
\<close>

definition streamFields :: "decls \<Rightarrow> FormatPrivate \<Rightarrow> byte list" where
  "streamFields h d =
     stream_qint32 (num_formatIndex (numberData d))
     @ stream_qint32 (alignHCode h (align_alignH (alignmentData d)))
     @ stream_qint32 (alignVCode h (align_alignV (alignmentData d)))
     @ stream_qint32 (align_indent (alignmentData d))
     @ stream_qint32 (align_rotation (alignmentData d))
     @ stream_bool (align_shinkToFit (alignmentData d))
     @ stream_bool (align_wrap (alignmentData d))
     @ stream_bool (prot_hidden (protectionData d))
     @ stream_bool (prot_locked (protectionData d))"

definition formatKey :: "decls \<Rightarrow> FormatPrivate \<Rightarrow> QByteArray \<times> FormatPrivate" where
  "formatKey h d =
     (if dirty d \<or> font_dirty (fontData d) \<or> border_dirty (borderData d)
         \<or> fill_dirty (fillData d)
      then
        (let (fk, d1) = fontKey h d;
             (bk, d2) = borderKey h d1;
             (lk, d3) = fillKey h d2;
             key = Some (stream_QByteArray fk @ stream_QByteArray bk @ stream_QByteArray lk
                         @ streamFields h d3)
         in (key, d3\<lparr> formatKey_cached := key, dirty := False,
                      xf_indexValid := False, dxf_indexValid := False \<rparr>))
      else (formatKey_cached d, d))"

subsection \<open>The cached indices\<close>

definition setXfIndex :: "cint \<Rightarrow> FormatPrivate \<Rightarrow> FormatPrivate" where
  "setXfIndex idx d = d\<lparr> xf_index := idx, xf_indexValid := True \<rparr>"

definition xfIndex :: "FormatPrivate \<Rightarrow> cint" where
  "xfIndex d = xf_index d"

definition xfIndexValid :: "FormatPrivate \<Rightarrow> bool" where
  "xfIndexValid d = (\<not> dirty d \<and> xf_indexValid d)"

definition setDxfIndex :: "cint \<Rightarrow> FormatPrivate \<Rightarrow> FormatPrivate" where
  "setDxfIndex idx d = d\<lparr> dxf_index := idx, dxf_indexValid := True \<rparr>"

definition dxfIndex :: "FormatPrivate \<Rightarrow> cint" where
  "dxfIndex d = dxf_index d"

definition dxfIndexValid :: "FormatPrivate \<Rightarrow> bool" where
  "dxfIndexValid d = (\<not> dirty d \<and> dxf_indexValid d)"

definition isDxfFormat :: "FormatPrivate \<Rightarrow> bool" where
  "isDxfFormat d = is_dxf_fomat d"

subsection \<open>The public setters as one type of calls\<close>

datatype mutator =
    SetNumberFormatIndex cint
  | SetNumberFormat QString
  | SetFontSize cint
  | SetFontItalic bool
  | SetFontStrikeOut bool
  | SetFontColor QColor
  | SetFontBold bool
  | SetFontScript FontScript
  | SetFontUnderline FontUnderline
  | SetFontOutline bool
  | SetFontName QString
  | SetHorizontalAlignment HorizontalAlignment
  | SetVerticalAlignment VerticalAlignment
  | SetTextWarp bool
  | SetRotation cint
  | SetIndent cint
  | SetShrinkToFit bool
  | SetBorderStyle BorderStyle
  | SetBorderColor QColor
  | SetLeftBorderStyle BorderStyle
  | SetLeftBorderColor QColor
  | SetRightBorderStyle BorderStyle
  | SetRightBorderColor QColor
  | SetTopBorderStyle BorderStyle
  | SetTopBorderColor QColor
  | SetBottomBorderStyle BorderStyle
  | SetBottomBorderColor QColor
  | SetDiagonalBorderStyle BorderStyle
  | SetDiagonalBorderType DiagonalBorderType
  | SetDiagonalBorderColor QColor
  | SetFillPattern FillPattern
  | SetPatternForegroundColor QColor
  | SetPatternBackgroundColor QColor
  | SetHidden bool
  | SetLocked bool

fun call :: "mutator \<Rightarrow> FormatPrivate \<Rightarrow> FormatPrivate" where
  "call (SetNumberFormatIndex i) = setNumberFormatIndex i"
| "call (SetNumberFormat s) = setNumberFormat s"
| "call (SetFontSize n) = setFontSize n"
| "call (SetFontItalic b) = setFontItalic b"
| "call (SetFontStrikeOut b) = setFontStrikeOut b"
| "call (SetFontColor c) = setFontColor c"
| "call (SetFontBold b) = setFontBold b"
| "call (SetFontScript s) = setFontScript s"
| "call (SetFontUnderline u) = setFontUnderline u"
| "call (SetFontOutline b) = setFontOutline b"
| "call (SetFontName s) = setFontName s"
| "call (SetHorizontalAlignment a) = setHorizontalAlignment a"
| "call (SetVerticalAlignment a) = setVerticalAlignment a"
| "call (SetTextWarp b) = setTextWarp b"
| "call (SetRotation n) = setRotation n"
| "call (SetIndent n) = setIndent n"
| "call (SetShrinkToFit b) = setShrinkToFit b"
| "call (SetBorderStyle s) = setBorderStyle s"
| "call (SetBorderColor c) = setBorderColor c"
| "call (SetLeftBorderStyle s) = setLeftBorderStyle s"
| "call (SetLeftBorderColor c) = setLeftBorderColor c"
| "call (SetRightBorderStyle s) = setRightBorderStyle s"
| "call (SetRightBorderColor c) = setRightBorderColor c"
| "call (SetTopBorderStyle s) = setTopBorderStyle s"
| "call (SetTopBorderColor c) = setTopBorderColor c"
| "call (SetBottomBorderStyle s) = setBottomBorderStyle s"
| "call (SetBottomBorderColor c) = setBottomBorderColor c"
| "call (SetDiagonalBorderStyle s) = setDiagonalBorderStyle s"
| "call (SetDiagonalBorderType t) = setDiagonalBorderType t"
| "call (SetDiagonalBorderColor c) = setDiagonalBorderColor c"
| "call (SetFillPattern p) = setFillPattern p"
| "call (SetPatternForegroundColor c) = setPatternForegroundColor c"
| "call (SetPatternBackgroundColor c) = setPatternBackgroundColor c"
| "call (SetHidden b) = setHidden b"
| "call (SetLocked b) = setLocked b"

text \<open>A sequence of calls, the first call first.\<close>

definition calls :: "mutator list \<Rightarrow> FormatPrivate \<Rightarrow> FormatPrivate" where
  "calls ms d = fold call ms d"

text \<open>The bundle a setter belongs to.\<close>

datatype bundleName = Number | Font | Alignment | Border | Fill | Protection

fun bundleOf :: "mutator \<Rightarrow> bundleName" where
  "bundleOf (SetNumberFormatIndex i) = Number"
| "bundleOf (SetNumberFormat s) = Number"
| "bundleOf (SetFontSize n) = Font"
| "bundleOf (SetFontItalic b) = Font"
| "bundleOf (SetFontStrikeOut b) = Font"
| "bundleOf (SetFontColor c) = Font"
| "bundleOf (SetFontBold b) = Font"
| "bundleOf (SetFontScript s) = Font"
| "bundleOf (SetFontUnderline u) = Font"
| "bundleOf (SetFontOutline b) = Font"
| "bundleOf (SetFontName s) = Font"
| "bundleOf (SetHorizontalAlignment a) = Alignment"
| "bundleOf (SetVerticalAlignment a) = Alignment"
| "bundleOf (SetTextWarp b) = Alignment"
| "bundleOf (SetRotation n) = Alignment"
| "bundleOf (SetIndent n) = Alignment"
| "bundleOf (SetShrinkToFit b) = Alignment"
| "bundleOf (SetBorderStyle s) = Border"
| "bundleOf (SetBorderColor c) = Border"
| "bundleOf (SetLeftBorderStyle s) = Border"
| "bundleOf (SetLeftBorderColor c) = Border"
| "bundleOf (SetRightBorderStyle s) = Border"
| "bundleOf (SetRightBorderColor c) = Border"
| "bundleOf (SetTopBorderStyle s) = Border"
| "bundleOf (SetTopBorderColor c) = Border"
| "bundleOf (SetBottomBorderStyle s) = Border"
| "bundleOf (SetBottomBorderColor c) = Border"
| "bundleOf (SetDiagonalBorderStyle s) = Border"
| "bundleOf (SetDiagonalBorderType t) = Border"
| "bundleOf (SetDiagonalBorderColor c) = Border"
| "bundleOf (SetFillPattern p) = Fill"
| "bundleOf (SetPatternForegroundColor c) = Fill"
| "bundleOf (SetPatternBackgroundColor c) = Fill"
| "bundleOf (SetHidden b) = Protection"
| "bundleOf (SetLocked b) = Protection"

text \<open>
  The setters that write \<^verbatim>\<open>d->dirty = true\<close> themselves: those of the number
  format (the call with an empty string returns before), of the alignment and of the
  protection. The setters of font, border and fill write the \<^verbatim>\<open>_dirty\<close> member of
  their bundle only.
\<close>

definition marksDirty :: "mutator \<Rightarrow> bool" where
  "marksDirty m =
     ((bundleOf m = Number \<or> bundleOf m = Alignment \<or> bundleOf m = Protection)
      \<and> m \<noteq> SetNumberFormat [])"

text \<open>
  The attributes a call assigns, as the argument it is given; the number format is one
  attribute, given by index or by string.
\<close>

datatype attribute =
    NumberFormatAttr
  | FontSize | FontItalic | FontStrikeOut | FontColor | FontBold | FontScriptAttr
  | FontUnderlineAttr | FontOutline | FontName
  | HorizontalAlignmentAttr | VerticalAlignmentAttr | TextWrap | Rotation | Indent
  | ShrinkToFit
  | LeftBorderStyle | LeftBorderColor | RightBorderStyle | RightBorderColor
  | TopBorderStyle | TopBorderColor | BottomBorderStyle | BottomBorderColor
  | DiagonalBorderStyle | DiagonalBorderTypeAttr | DiagonalBorderColor
  | FillPatternAttr | PatternForegroundColor | PatternBackgroundColor
  | Hidden | Locked

fun assigned :: "mutator \<Rightarrow> attribute list" where
  "assigned (SetNumberFormatIndex i) = [NumberFormatAttr]"
| "assigned (SetNumberFormat s) = [NumberFormatAttr]"
| "assigned (SetFontSize n) = [FontSize]"
| "assigned (SetFontItalic b) = [FontItalic]"
| "assigned (SetFontStrikeOut b) = [FontStrikeOut]"
| "assigned (SetFontColor c) = [FontColor]"
| "assigned (SetFontBold b) = [FontBold]"
| "assigned (SetFontScript s) = [FontScriptAttr]"
| "assigned (SetFontUnderline u) = [FontUnderlineAttr]"
| "assigned (SetFontOutline b) = [FontOutline]"
| "assigned (SetFontName s) = [FontName]"
| "assigned (SetHorizontalAlignment a) = [HorizontalAlignmentAttr]"
| "assigned (SetVerticalAlignment a) = [VerticalAlignmentAttr]"
| "assigned (SetTextWarp b) = [TextWrap]"
| "assigned (SetRotation n) = [Rotation]"
| "assigned (SetIndent n) = [Indent]"
| "assigned (SetShrinkToFit b) = [ShrinkToFit]"
| "assigned (SetBorderStyle s) =
     [LeftBorderStyle, RightBorderStyle, BottomBorderStyle, TopBorderStyle]"
| "assigned (SetBorderColor c) =
     [LeftBorderColor, RightBorderColor, TopBorderColor, BottomBorderColor]"
| "assigned (SetLeftBorderStyle s) = [LeftBorderStyle]"
| "assigned (SetLeftBorderColor c) = [LeftBorderColor]"
| "assigned (SetRightBorderStyle s) = [RightBorderStyle]"
| "assigned (SetRightBorderColor c) = [RightBorderColor]"
| "assigned (SetTopBorderStyle s) = [TopBorderStyle]"
| "assigned (SetTopBorderColor c) = [TopBorderColor]"
| "assigned (SetBottomBorderStyle s) = [BottomBorderStyle]"
| "assigned (SetBottomBorderColor c) = [BottomBorderColor]"
| "assigned (SetDiagonalBorderStyle s) = [DiagonalBorderStyle]"
| "assigned (SetDiagonalBorderType t) = [DiagonalBorderTypeAttr]"
| "assigned (SetDiagonalBorderColor c) = [DiagonalBorderColor]"
| "assigned (SetFillPattern p) = [FillPatternAttr]"
| "assigned (SetPatternForegroundColor c) = [PatternForegroundColor]"
| "assigned (SetPatternBackgroundColor c) = [PatternBackgroundColor]"
| "assigned (SetHidden b) = [Hidden]"
| "assigned (SetLocked b) = [Locked]"

text \<open>
  The pairs of calls on different attributes in which one setter rewrites the attribute
  of the other: the guards of \<^verbatim>\<open>setHorizontalAlignment\<close>, \<^verbatim>\<open>setIndent\<close>,
  \<^verbatim>\<open>setShrinkToFit\<close>, \<^verbatim>\<open>setTextWarp\<close> and of the two pattern colour setters.
\<close>

definition normalises :: "mutator \<Rightarrow> mutator \<Rightarrow> bool" where
  "normalises x y =
     (case x of
        SetHorizontalAlignment a \<Rightarrow>
          (case y of
             SetIndent n \<Rightarrow>
               n \<noteq> 0 \<and> a \<noteq> AlignHGeneral \<and> a \<noteq> AlignLeft \<and> a \<noteq> AlignRight
           | SetShrinkToFit b \<Rightarrow>
               b \<and> (a = AlignHFill \<or> a = AlignHJustify \<or> a = AlignHDistributed)
           | _ \<Rightarrow> False)
      | SetShrinkToFit b \<Rightarrow> (case y of SetTextWarp w \<Rightarrow> b \<and> w | _ \<Rightarrow> False)
      | SetFillPattern p \<Rightarrow>
          (case y of
             SetPatternForegroundColor c \<Rightarrow> isValid c \<and> p = PatternNone
           | SetPatternBackgroundColor c \<Rightarrow> isValid c \<and> p = PatternNone
           | _ \<Rightarrow> False)
      | _ \<Rightarrow> False)"

definition independent :: "mutator \<Rightarrow> mutator \<Rightarrow> bool" where
  "independent x y =
     (x = y \<or>
      (list_all (\<lambda>a. a \<notin> set (assigned y)) (assigned x)
       \<and> \<not> normalises x y \<and> \<not> normalises y x))"

definition pairwiseIndependent :: "mutator list \<Rightarrow> bool" where
  "pairwiseIndependent ms = list_all (\<lambda>x. list_all (independent x) ms) ms"

subsection \<open>Handles\<close>

text \<open>
  A \<^verbatim>\<open>Format\<close> holds one pointer \<^verbatim>\<open>d\<close> to a reference-counted
  \<^verbatim>\<open>FormatPrivate\<close>. The store maps an address to the private data that lives
  there and to its reference count (\<^verbatim>\<open>QSharedData::ref\<close>); \<open>fresh\<close> is the next
  address that \<^verbatim>\<open>new\<close> hands out. A handle is the address it points to.
\<close>

record world =
  cells :: "nat \<Rightarrow> FormatPrivate"
  refs :: "nat \<Rightarrow> nat"
  fresh :: nat

type_synonym Format = nat

text \<open>\<^verbatim>\<open>Format::Format() : d(new FormatPrivate)\<close>; the argument is the constructed
  private data.\<close>

definition Format_new :: "FormatPrivate \<Rightarrow> world \<Rightarrow> Format \<times> world" where
  "Format_new init w =
     (fresh w,
      w\<lparr> cells := (cells w)(fresh w := init),
         refs := (refs w)(fresh w := 1),
         fresh := Suc (fresh w) \<rparr>)"

text \<open>\<^verbatim>\<open>Format::Format(const Format &other) : d(other.d)\<close>: the new handle shares
  the data of \<open>other\<close>.\<close>

definition Format_copy :: "Format \<Rightarrow> world \<Rightarrow> Format \<times> world" where
  "Format_copy other w = (other, w\<lparr> refs := (refs w)(other := Suc (refs w other)) \<rparr>)"

text \<open>\<^verbatim>\<open>Format::operator=\<close>: \<^verbatim>\<open>d = other.d\<close> takes a reference to the data of
  \<open>other\<close> and drops the one to the old data of \<open>this\<close>.\<close>

definition Format_assign :: "Format \<Rightarrow> Format \<Rightarrow> world \<Rightarrow> Format \<times> world" where
  "Format_assign this other w =
     (if other = this then (this, w)
      else (other,
            w\<lparr> refs := (refs w)(other := Suc (refs w other), this := refs w this - 1) \<rparr>))"

text \<open>A \<^verbatim>\<open>const\<close> member function reads, and the key functions write, through
  \<^verbatim>\<open>d\<close> in place.\<close>

definition formatKey_of :: "decls \<Rightarrow> Format \<Rightarrow> world \<Rightarrow> QByteArray \<times> world" where
  "formatKey_of h this w =
     (let (key, d') = formatKey h (cells w this)
      in (key, w\<lparr> cells := (cells w)(this := d') \<rparr>))"

text \<open>\<^verbatim>\<open>this->formatKey() == format.formatKey()\<close>, the left operand first, and
  \<^verbatim>\<open>operator!=\<close>.\<close>

definition operator_eq :: "decls \<Rightarrow> Format \<Rightarrow> Format \<Rightarrow> world \<Rightarrow> bool \<times> world" where
  "operator_eq h this format w =
     (let (k1, w1) = formatKey_of h this w;
          (k2, w2) = formatKey_of h format w1
      in (QByteArray_eq k1 k2, w2))"

definition operator_ne :: "decls \<Rightarrow> Format \<Rightarrow> Format \<Rightarrow> world \<Rightarrow> bool \<times> world" where
  "operator_ne h this format w =
     (let (k1, w1) = formatKey_of h this w;
          (k2, w2) = formatKey_of h format w1
      in (\<not> QByteArray_eq k1 k2, w2))"

text \<open>
  A setter called on a handle. The setter bodies assign through \<^verbatim>\<open>d\<close> and call no
  \<^verbatim>\<open>detach()\<close>, exactly as the \<^verbatim>\<open>const\<close> key functions of the same file do, which
  an implicitly detaching pointer would not allow: the write goes to the private data the
  handle points to, in place, and every handle that shares the data sees it.
\<close>

definition mutate :: "mutator \<Rightarrow> Format \<Rightarrow> world \<Rightarrow> world" where
  "mutate m this w = w\<lparr> cells := (cells w)(this := call m (cells w this)) \<rparr>"

subsection \<open>A concrete format\<close>

text \<open>
  Modelled from the spec: the constructors of the six bundles and the bytes of the three
  sub-keys are in \<^verbatim>\<open>xlsxformat_p.h\<close>, the enumerations in \<^verbatim>\<open>xlsxformat.h\<close>. The
  theorems hold for all of them; the instance below is used where a format is evaluated.
  The spec (3) lists the attribute fields of each bundle, and a bundle streams them in that
  order; the enumerators are numbered in the order in which they are listed above. A
  state is created in all-default form: the alignment is the one \<^verbatim>\<open>alignmentChanged\<close>
  compares with, a number format without string is valid, the other attributes are zero,
  empty or false, no index is cached and no key has been computed.
\<close>

definition stream_QString :: "QString \<Rightarrow> byte list" where
  "stream_QString s =
     stream_qint32 (of_nat (2 * length s)) @ concat (map (\<lambda>c. [0, of_char c]) s)"

fun stream_QColor :: "QColor \<Rightarrow> byte list" where
  "stream_QColor QColor_invalid = [0]"
| "stream_QColor (QColor_rgba w) = 1 # stream_qint32 w"

fun plain_alignHCode :: "HorizontalAlignment \<Rightarrow> cint" where
  "plain_alignHCode AlignHGeneral = 0"
| "plain_alignHCode AlignLeft = 1"
| "plain_alignHCode AlignHCenter = 2"
| "plain_alignHCode AlignRight = 3"
| "plain_alignHCode AlignHFill = 4"
| "plain_alignHCode AlignHJustify = 5"
| "plain_alignHCode AlignHMerge = 6"
| "plain_alignHCode AlignHDistributed = 7"

fun plain_alignVCode :: "VerticalAlignment \<Rightarrow> cint" where
  "plain_alignVCode AlignTop = 0"
| "plain_alignVCode AlignVCenter = 1"
| "plain_alignVCode AlignBottom = 2"
| "plain_alignVCode AlignVJustify = 3"
| "plain_alignVCode AlignVDistributed = 4"

fun plain_patternCode :: "FillPattern \<Rightarrow> cint" where
  "plain_patternCode PatternNone = 0"
| "plain_patternCode PatternSolid = 1"
| "plain_patternCode (PatternOther n) = n"

definition plain_fontBytes :: "XlsxFormatFontData \<Rightarrow> byte list" where
  "plain_fontBytes f =
     stream_qint32 (font_size f) @ stream_bool (font_bold f) @ stream_bool (font_italic f)
     @ stream_bool (font_strikeOut f) @ stream_bool (font_outline f)
     @ stream_bool (font_shadow f) @ stream_qint32 (font_underline f)
     @ stream_qint32 (font_scirpt f) @ stream_QColor (font_color f)
     @ stream_QString (font_themeColor f) @ stream_qint32 (font_family f)
     @ stream_QString (font_name f) @ stream_QString (font_scheme f)"

definition plain_borderBytes :: "XlsxFormatBorderData \<Rightarrow> byte list" where
  "plain_borderBytes b =
     stream_qint32 (border_left b) @ stream_QColor (border_leftColor b)
     @ stream_qint32 (border_right b) @ stream_QColor (border_rightColor b)
     @ stream_qint32 (border_top b) @ stream_QColor (border_topColor b)
     @ stream_qint32 (border_bottom b) @ stream_QColor (border_bottomColor b)
     @ stream_qint32 (border_diagonal b) @ stream_QColor (border_diagonalColor b)
     @ stream_qint32 (border_diagonalType b)"

definition plain_fillBytes :: "XlsxFormatFillData \<Rightarrow> byte list" where
  "plain_fillBytes l =
     stream_qint32 (plain_patternCode (fill_pattern l)) @ stream_QColor (fill_fgColor l)
     @ stream_QColor (fill_bgColor l)"

definition plain_decls :: decls where
  "plain_decls =
     \<lparr> fontBytes = plain_fontBytes, borderBytes = plain_borderBytes,
       fillBytes = plain_fillBytes,
       alignHCode = plain_alignHCode, alignVCode = plain_alignVCode \<rparr>"

definition default_number :: XlsxFormatNumberData where
  "default_number = \<lparr> num_formatIndex = 0, num_formatString = [], num_valid = True \<rparr>"

definition default_font :: XlsxFormatFontData where
  "default_font =
     \<lparr> font_size = 0, font_italic = False, font_strikeOut = False,
       font_color = QColor_invalid, font_themeColor = [], font_bold = False,
       font_scirpt = 0, font_underline = 0, font_outline = False, font_shadow = False,
       font_name = [], font_family = 0, font_scheme = [],
       font_dirty = True, font_indexValid = False, font_index = - 1, font_key = None \<rparr>"

definition default_alignment :: XlsxFormatAlignmentData where
  "default_alignment =
     \<lparr> align_alignH = AlignHGeneral, align_alignV = AlignBottom, align_wrap = False,
       align_rotation = 0, align_indent = 0, align_shinkToFit = False \<rparr>"

definition default_border :: XlsxFormatBorderData where
  "default_border =
     \<lparr> border_left = 0, border_right = 0, border_top = 0, border_bottom = 0,
       border_diagonal = 0,
       border_leftColor = QColor_invalid, border_rightColor = QColor_invalid,
       border_topColor = QColor_invalid, border_bottomColor = QColor_invalid,
       border_diagonalColor = QColor_invalid, border_diagonalType = 0,
       border_dirty = True, border_indexValid = False, border_index = - 1,
       border_key = None \<rparr>"

definition default_fill :: XlsxFormatFillData where
  "default_fill =
     \<lparr> fill_pattern = PatternNone, fill_bgColor = QColor_invalid,
       fill_fgColor = QColor_invalid,
       fill_dirty = True, fill_indexValid = False, fill_index = - 1, fill_key = None \<rparr>"

definition default_protection :: XlsxFormatProtectionData where
  "default_protection = \<lparr> prot_locked = False, prot_hidden = False \<rparr>"

definition default_format :: FormatPrivate where
  "default_format =
     FormatPrivate_init default_number default_font default_alignment
       default_border default_fill default_protection"

text \<open>The store before any format is created.\<close>

definition empty_world :: world where
  "empty_world = \<lparr> cells = (\<lambda>_. default_format), refs = (\<lambda>_. 0), fresh = 0 \<rparr>"

text \<open>The store with one freshly constructed format (handle 0), and with two (handles 0
  and 1).\<close>

definition one_format :: world where
  "one_format = snd (Format_new default_format empty_world)"

definition two_formats :: world where
  "two_formats = snd (Format_new default_format one_format)"

subsection \<open>The alignment setters on the alignment bundle\<close>

text \<open>
  What a call does to \<^verbatim>\<open>d->alignmentData\<close>, field by field; the setters of the
  other bundles leave it as it is. The commutation proofs below work on this view.
\<close>

fun alignmentStep :: "mutator \<Rightarrow> XlsxFormatAlignmentData \<Rightarrow> XlsxFormatAlignmentData" where
  "alignmentStep (SetHorizontalAlignment a) r =
     r\<lparr> align_indent :=
           (if a \<noteq> AlignHGeneral \<and> a \<noteq> AlignLeft \<and> a \<noteq> AlignRight
               \<and> a \<noteq> AlignHDistributed
            then 0 else align_indent r),
         align_shinkToFit :=
           (align_shinkToFit r
            \<and> \<not> (a = AlignHFill \<or> a = AlignHJustify \<or> a = AlignHDistributed)),
         align_alignH := a \<rparr>"
| "alignmentStep (SetVerticalAlignment a) r = r\<lparr> align_alignV := a \<rparr>"
| "alignmentStep (SetTextWarp w) r =
     r\<lparr> align_shinkToFit := (align_shinkToFit r \<and> \<not> w), align_wrap := w \<rparr>"
| "alignmentStep (SetRotation n) r = r\<lparr> align_rotation := n \<rparr>"
| "alignmentStep (SetIndent n) r =
     r\<lparr> align_alignH :=
           (if n \<noteq> 0 \<and> align_alignH r \<noteq> AlignHGeneral \<and> align_alignH r \<noteq> AlignLeft
               \<and> align_alignH r \<noteq> AlignRight \<and> align_alignH r \<noteq> AlignHJustify
            then AlignLeft else align_alignH r),
         align_indent := n \<rparr>"
| "alignmentStep (SetShrinkToFit s) r =
     r\<lparr> align_wrap := (align_wrap r \<and> \<not> s),
         align_alignH :=
           (if s \<and> (align_alignH r = AlignHFill \<or> align_alignH r = AlignHJustify
                     \<or> align_alignH r = AlignHDistributed)
            then AlignLeft else align_alignH r),
         align_shinkToFit := s \<rparr>"
| "alignmentStep m r = r"

section \<open>Lemmas\<close>

subsection \<open>The key functions\<close>

lemmas key_defs =
  fontKey_def borderKey_def fillKey_def
  XlsxFormatFontData_key_def XlsxFormatBorderData_key_def XlsxFormatFillData_key_def

lemma fontKey_fst:
  "fst (fontKey h d) =
     (if font_dirty (fontData d) then Some (fontBytes h (fontData d)) else font_key (fontData d))"
  by (simp add: key_defs Let_def)

lemma borderKey_fst:
  "fst (borderKey h d) =
     (if border_dirty (borderData d) then Some (borderBytes h (borderData d))
      else border_key (borderData d))"
  by (simp add: key_defs Let_def)

lemma fillKey_fst:
  "fst (fillKey h d) =
     (if fill_dirty (fillData d) then Some (fillBytes h (fillData d)) else fill_key (fillData d))"
  by (simp add: key_defs Let_def)

lemma fontKey_snd:
  "snd (fontKey h d) =
     (if font_dirty (fontData d)
      then d\<lparr> dirty := True,
              fontData := (fontData d)\<lparr> font_key := Some (fontBytes h (fontData d)),
                                       font_dirty := False \<rparr> \<rparr>
      else d)"
  by (simp add: key_defs Let_def)

lemma borderKey_snd:
  "snd (borderKey h d) =
     (if border_dirty (borderData d)
      then d\<lparr> dirty := True,
              borderData := (borderData d)\<lparr> border_key := Some (borderBytes h (borderData d)),
                                           border_dirty := False \<rparr> \<rparr>
      else d)"
  by (simp add: key_defs Let_def)

lemma fillKey_snd:
  "snd (fillKey h d) =
     (if fill_dirty (fillData d)
      then d\<lparr> dirty := True,
              fillData := (fillData d)\<lparr> fill_key := Some (fillBytes h (fillData d)),
                                       fill_dirty := False \<rparr> \<rparr>
      else d)"
  by (simp add: key_defs Let_def)

text \<open>The three sub-key calls of formatKey, one after the other.\<close>

lemma formatKey_unfold:
  "formatKey h d =
     (if dirty d \<or> font_dirty (fontData d) \<or> border_dirty (borderData d)
         \<or> fill_dirty (fillData d)
      then
        (let d1 = snd (fontKey h d); d2 = snd (borderKey h d1); d3 = snd (fillKey h d2);
             key = Some (stream_QByteArray (fst (fontKey h d))
                         @ stream_QByteArray (fst (borderKey h d1))
                         @ stream_QByteArray (fst (fillKey h d2))
                         @ streamFields h d3)
         in (key, d3\<lparr> formatKey_cached := key, dirty := False,
                      xf_indexValid := False, dxf_indexValid := False \<rparr>))
      else (formatKey_cached d, d))"
  by (simp add: formatKey_def Let_def split_def)

lemma subkeys_frame:
  "fst (borderKey h (snd (fontKey h d))) = fst (borderKey h d)"
  "fst (fillKey h (snd (borderKey h (snd (fontKey h d))))) = fst (fillKey h d)"
  "streamFields h (snd (fillKey h (snd (borderKey h (snd (fontKey h d)))))) = streamFields h d"
  by (simp_all add: fontKey_snd borderKey_snd fillKey_snd borderKey_fst fillKey_fst
        streamFields_def)

lemma formatKey_fst:
  "fst (formatKey h d) =
     (if dirty d \<or> font_dirty (fontData d) \<or> border_dirty (borderData d)
         \<or> fill_dirty (fillData d)
      then Some (stream_QByteArray (fst (fontKey h d))
                 @ stream_QByteArray (fst (borderKey h d))
                 @ stream_QByteArray (fst (fillKey h d))
                 @ streamFields h d)
      else formatKey_cached d)"
  by (simp add: formatKey_unfold Let_def subkeys_frame)

lemma formatKey_snd_flags:
  "dirty (snd (formatKey h d)) = False"
  "font_dirty (fontData (snd (formatKey h d))) = False"
  "border_dirty (borderData (snd (formatKey h d))) = False"
  "fill_dirty (fillData (snd (formatKey h d))) = False"
  "formatKey_cached (snd (formatKey h d)) = fst (formatKey h d)"
  by (simp_all add: formatKey_unfold Let_def subkeys_frame fontKey_snd borderKey_snd fillKey_snd)

lemma formatKey_snd_invalid:
  "dirty d \<or> font_dirty (fontData d) \<or> border_dirty (borderData d) \<or> fill_dirty (fillData d)
   \<Longrightarrow> xf_indexValid (snd (formatKey h d)) = False \<and> dxf_indexValid (snd (formatKey h d)) = False"
  by (simp add: formatKey_unfold Let_def)

lemma formatKey_snd_frame:
  "numberData (snd (formatKey h d)) = numberData d"
  "alignmentData (snd (formatKey h d)) = alignmentData d"
  "protectionData (snd (formatKey h d)) = protectionData d"
  by (simp_all add: formatKey_unfold Let_def fontKey_snd borderKey_snd fillKey_snd)

lemma formatKey_idem:
  "formatKey h (snd (formatKey h d)) = (fst (formatKey h d), snd (formatKey h d))"
  using formatKey_snd_flags [of h d] by (simp add: formatKey_unfold [of h "snd (formatKey h d)"])

subsection \<open>Setters that commute\<close>

lemmas plain_defs =
  setNumberFormatIndex_def setNumberFormat_def
  setFontSize_def setFontItalic_def setFontStrikeOut_def setFontColor_def setFontBold_def
  setFontScript_def setFontUnderline_def setFontOutline_def setFontName_def
  setBorderStyle_def setBorderColor_def
  setLeftBorderStyle_def setLeftBorderColor_def setRightBorderStyle_def setRightBorderColor_def
  setTopBorderStyle_def setTopBorderColor_def setBottomBorderStyle_def setBottomBorderColor_def
  setDiagonalBorderStyle_def setDiagonalBorderType_def setDiagonalBorderColor_def
  setFillPattern_def setPatternForegroundColor_def setPatternBackgroundColor_def
  setHidden_def setLocked_def

lemmas align_defs =
  setHorizontalAlignment_def setVerticalAlignment_def setTextWarp_def setRotation_def
  setIndent_def setShrinkToFit_def

lemma alignment_cong:
  "a = b \<Longrightarrow>
   d\<lparr> alignmentData := a, dirty := True \<rparr> = d\<lparr> alignmentData := b, dirty := True \<rparr>"
  by simp

lemma call_alignment:
  "bundleOf y = Alignment \<Longrightarrow>
   call y d = d\<lparr> alignmentData := alignmentStep y (alignmentData d), dirty := True \<rparr>"
  by (cases y; simp del: alignmentStep.simps; unfold align_defs Let_def; rule alignment_cong;
      cases "alignmentData d"; auto)

lemma call_other:
  "bundleOf x \<noteq> Alignment \<Longrightarrow> alignmentData (call x d) = alignmentData d"
  by (cases x; simp; simp add: plain_defs Let_def)

lemma alignmentStep_commute:
  "bundleOf x = Alignment \<Longrightarrow> bundleOf y = Alignment \<Longrightarrow> independent x y \<Longrightarrow>
   alignmentStep x (alignmentStep y r) = alignmentStep y (alignmentStep x r)"
  by (cases x; simp del: alignmentStep.simps; cases y; simp del: alignmentStep.simps;
      cases r; simp add: independent_def normalises_def; auto)

lemma commute_alignment:
  assumes "bundleOf x = Alignment" "bundleOf y = Alignment" "independent x y"
  shows "call x (call y d) = call y (call x d)"
  by (simp add: call_alignment [OF assms(1)] call_alignment [OF assms(2)]
        alignmentStep_commute [OF assms] del: alignmentStep.simps)

lemma commute_plain_alignment:
  "bundleOf x \<noteq> Alignment \<Longrightarrow> bundleOf y = Alignment \<Longrightarrow>
   call x (call y d) = call y (call x d)"
  by (simp add: call_alignment del: alignmentStep.simps; cases x; simp;
      simp add: plain_defs Let_def)

lemma commute_plain:
  "bundleOf x \<noteq> Alignment \<Longrightarrow> bundleOf y \<noteq> Alignment \<Longrightarrow> independent x y \<Longrightarrow>
   call x (call y d) = call y (call x d)"
  by (cases x; simp; cases y; simp add: independent_def normalises_def;
      auto simp add: plain_defs Let_def)

lemma call_commute:
  assumes ind: "independent x y"
  shows "call x (call y d) = call y (call x d)"
proof (cases "bundleOf x = Alignment")
  case x: True
  show ?thesis
  proof (cases "bundleOf y = Alignment")
    case True
    from x True ind show ?thesis by (rule commute_alignment)
  next
    case False
    from False x have "call y (call x d) = call x (call y d)"
      by (rule commute_plain_alignment)
    then show ?thesis by (rule sym)
  qed
next
  case x: False
  show ?thesis
  proof (cases "bundleOf y = Alignment")
    case True
    from x True show ?thesis by (rule commute_plain_alignment)
  next
    case False
    from x False ind show ?thesis by (rule commute_plain)
  qed
qed

lemma calls_permute:
  assumes "mset xs = mset ys" and "pairwiseIndependent xs"
  shows "calls xs d = calls ys d"
proof -
  have "fold call xs = fold call ys"
  proof (rule fold_multiset_equiv)
    fix x y assume "x \<in> set xs" "y \<in> set xs"
    with assms(2) have ind: "independent x y"
      by (auto simp: pairwiseIndependent_def list_all_iff)
    show "call x \<circ> call y = call y \<circ> call x"
    proof (rule ext)
      fix e show "(call x \<circ> call y) e = (call y \<circ> call x) e"
        unfolding comp_def using ind by (rule call_commute)
    qed
  qed (rule assms(1))
  then show ?thesis by (simp add: calls_def)
qed

subsection \<open>Facts about the setters\<close>

lemma marksDirty_dirty: "marksDirty m \<Longrightarrow> dirty (call m d)"
  by (cases m; simp add: marksDirty_def; simp add: plain_defs align_defs Let_def)

lemma FormatPrivate_copy_id: "FormatPrivate_copy d = d"
  by (cases d) (simp add: FormatPrivate_copy_def)

lemma key_depends_on_order:
  "fst (formatKey h (setHorizontalAlignment AlignHFill (setIndent 3 d)))
   \<noteq> fst (formatKey h (setIndent 3 (setHorizontalAlignment AlignHFill d)))"
  by (simp add: formatKey_fst fontKey_fst borderKey_fst fillKey_fst streamFields_def
        setHorizontalAlignment_def setIndent_def Let_def stream_qint32_def)

lemma setNumberFormat_empty: "setNumberFormat [] d = d"
  by (simp add: setNumberFormat_def)

lemma wrap_shrink_step:
  "\<not> (align_wrap r \<and> align_shinkToFit r) \<Longrightarrow>
   \<not> (align_wrap (alignmentStep m r) \<and> align_shinkToFit (alignmentStep m r))"
  by (cases m) auto

lemma wrap_shrink_call:
  assumes "\<not> (align_wrap (alignmentData d) \<and> align_shinkToFit (alignmentData d))"
  shows "\<not> (align_wrap (alignmentData (call m d)) \<and> align_shinkToFit (alignmentData (call m d)))"
proof (cases "bundleOf m = Alignment")
  case True
  then show ?thesis using wrap_shrink_step [OF assms, of m]
    by (simp add: call_alignment del: alignmentStep.simps)
next
  case False
  then show ?thesis using assms by (simp add: call_other)
qed

lemma wrap_shrink_calls:
  "\<not> (align_wrap (alignmentData d) \<and> align_shinkToFit (alignmentData d)) \<Longrightarrow>
   \<not> (align_wrap (alignmentData (calls ms d)) \<and> align_shinkToFit (alignmentData (calls ms d)))"
proof (induction ms arbitrary: d)
  case Nil
  then show ?case by (simp add: calls_def)
next
  case (Cons m ms)
  from Cons.IH [OF wrap_shrink_call [OF Cons.prems, of m]] show ?case
    by (simp add: calls_def)
qed

lemma other_step_flags:
  assumes "\<And>b. m \<noteq> SetTextWarp b" "\<And>b. m \<noteq> SetShrinkToFit b"
  shows "align_wrap (alignmentStep m r) = align_wrap r
         \<and> (align_shinkToFit (alignmentStep m r) \<longrightarrow> align_shinkToFit r)"
  using assms by (cases m) auto

lemma other_calls_flags:
  assumes "\<And>b. m \<noteq> SetTextWarp b" "\<And>b. m \<noteq> SetShrinkToFit b"
  shows "align_wrap (alignmentData (call m d)) = align_wrap (alignmentData d)
         \<and> (align_shinkToFit (alignmentData (call m d)) \<longrightarrow> align_shinkToFit (alignmentData d))"
proof (cases "bundleOf m = Alignment")
  case True
  then show ?thesis using other_step_flags [OF assms, of "alignmentData d"]
    by (simp add: call_alignment del: alignmentStep.simps)
next
  case False
  then show ?thesis by (simp add: call_other)
qed

lemma removeColors_token:
  "removeColors (''[Green]'' @ s) = removeColors s"
  "removeColors (''[White]'' @ s) = removeColors s"
  "removeColors (''[Blue]'' @ s) = removeColors s"
  "removeColors (''[Magenta]'' @ s) = removeColors s"
  "removeColors (''[Yellow]'' @ s) = removeColors s"
  "removeColors (''[Cyan]'' @ s) = removeColors s"
  "removeColors (''[Red]'' @ s) = removeColors s"
  by (simp_all add: matchColor_def colorNames_def)



section \<open>The claims\<close>

text \<open>
  C1 (as amended). \<^verbatim>\<open>xfIndexValid()\<close> after \<^verbatim>\<open>setXfIndex(i)\<close> is true exactly when
  the whole-value dirty flag is clear, and likewise \<^verbatim>\<open>dxfIndexValid()\<close> after
  \<^verbatim>\<open>setDxfIndex(i)\<close>; both are true when the index is set right after
  \<^verbatim>\<open>formatKey()\<close>. After a setter that marks the whole value dirty (number format
  index, non-empty number format string, alignment, protection) both queries return
  false, and they stay false when an index is set again before the key is recomputed.
\<close>

theorem index_valid_until_dirty:
  "xfIndexValid (setXfIndex i d) = (\<not> dirty d)
   \<and> dxfIndexValid (setDxfIndex i d) = (\<not> dirty d)
   \<and> xfIndexValid (setXfIndex i (snd (formatKey h d)))
   \<and> dxfIndexValid (setDxfIndex i (snd (formatKey h d)))
   \<and> (marksDirty m \<longrightarrow>
        \<not> xfIndexValid (call m d) \<and> \<not> dxfIndexValid (call m d)
        \<and> \<not> xfIndexValid (setXfIndex j (call m d))
        \<and> \<not> dxfIndexValid (setDxfIndex j (call m d)))"
  using marksDirty_dirty [of m d] formatKey_snd_flags(1) [of h d]
  by (simp add: xfIndexValid_def dxfIndexValid_def setXfIndex_def setDxfIndex_def)

theorem index_valid_until_dirty_witness:
  "marksDirty (SetIndent 3)
   \<and> xfIndexValid (setXfIndex 5 (snd (formatKey plain_decls default_format)))
   \<and> \<not> xfIndexValid
         (call (SetIndent 3) (setXfIndex 5 (snd (formatKey plain_decls default_format))))
   \<and> \<not> dxfIndexValid
         (setDxfIndex 7
           (call (SetIndent 3) (setXfIndex 5 (snd (formatKey plain_decls default_format)))))"
  using index_valid_until_dirty
          [where m = "SetIndent 3" and h = plain_decls and i = 5 and j = 7
             and d = "setXfIndex 5 (snd (formatKey plain_decls default_format))"]
        index_valid_until_dirty
          [where m = "SetIndent 3" and h = plain_decls and i = 5 and j = 7
             and d = default_format]
  by (simp add: marksDirty_def)

text \<open>
  C1 as stated fails: on a freshly constructed format, whose dirty flag is set,
  \<^verbatim>\<open>xfIndexValid()\<close> is false right after \<^verbatim>\<open>setXfIndex(5)\<close>; and on a format whose
  key has been computed, \<^verbatim>\<open>setFontSize\<close> after \<^verbatim>\<open>setXfIndex(5)\<close> leaves
  \<^verbatim>\<open>xfIndexValid()\<close> true.
\<close>

theorem index_valid_counterexample:
  "\<not> xfIndexValid (setXfIndex 5 default_format)
   \<and> xfIndexValid (setFontSize 12 (setXfIndex 5 (snd (formatKey plain_decls default_format))))"
  using formatKey_snd_flags(1) [of plain_decls default_format]
  by (simp add: xfIndexValid_def setXfIndex_def setFontSize_def default_format_def
        FormatPrivate_init_def)

text \<open>
  C2 (as amended). Two formats built from the same state by the same calls in two orders
  have the same \<^verbatim>\<open>formatKey()\<close>, provided the calls are pairwise independent: any two
  different calls assign different attributes, and neither setter rewrites the attribute
  of the other (horizontal alignment against a non-zero indent or an enabled
  shrink-to-fit, shrink-to-fit against word-wrap, a valid pattern colour against the
  pattern \<^verbatim>\<open>PatternNone\<close>).
\<close>

theorem formatKey_order_independent:
  assumes "mset xs = mset ys" and "pairwiseIndependent xs"
  shows "fst (formatKey h (calls xs d)) = fst (formatKey h (calls ys d))"
  by (simp add: calls_permute [OF assms])

theorem formatKey_order_independent_witness:
  "mset [SetIndent 3, SetFontBold True, SetHidden True]
     = mset [SetHidden True, SetIndent 3, SetFontBold True]
   \<and> pairwiseIndependent [SetIndent 3, SetFontBold True, SetHidden True]
   \<and> fst (formatKey plain_decls
            (calls [SetIndent 3, SetFontBold True, SetHidden True] default_format))
     = fst (formatKey plain_decls
            (calls [SetHidden True, SetIndent 3, SetFontBold True] default_format))"
proof -
  have m: "mset [SetIndent 3, SetFontBold True, SetHidden True]
           = mset [SetHidden True, SetIndent 3, SetFontBold True]"
    by simp
  have p: "pairwiseIndependent [SetIndent 3, SetFontBold True, SetHidden True]"
    by (simp add: pairwiseIndependent_def independent_def normalises_def)
  from m p formatKey_order_independent [OF m p, of plain_decls default_format]
  show ?thesis by blast
qed

text \<open>
  C2 as stated fails: \<^verbatim>\<open>setIndent(3)\<close> and \<^verbatim>\<open>setHorizontalAlignment(AlignHFill)\<close>
  on a fresh format give indent 0 and alignment fill in this order, and indent 3 and
  alignment left in the other; the keys differ.
\<close>

theorem formatKey_order_counterexample:
  "fst (formatKey plain_decls
         (calls [SetIndent 3, SetHorizontalAlignment AlignHFill] default_format))
   \<noteq> fst (formatKey plain_decls
         (calls [SetHorizontalAlignment AlignHFill, SetIndent 3] default_format))"
  using key_depends_on_order [of plain_decls default_format] by (simp add: calls_def)

text \<open>
  C9. \<^verbatim>\<open>setNumberFormat\<close> with an empty string leaves the private data, hence every
  field and flag, as it was.
\<close>

theorem setNumberFormat_empty_noop:
  "setNumberFormat [] d = d \<and> call (SetNumberFormat []) d = d"
  by (simp add: setNumberFormat_def)

text \<open>
  C7. On a format with a non-zero indent, \<^verbatim>\<open>setHorizontalAlignment\<close> stores the new
  alignment, and the indent becomes 0 unless the new alignment is general, left, right or
  distributed, for which the indent is unchanged.
\<close>

theorem setHorizontalAlignment_indent:
  assumes "indent d \<noteq> 0"
  shows "horizontalAlignment (setHorizontalAlignment a d) = a
         \<and> indent (setHorizontalAlignment a d) =
             (if a = AlignHGeneral \<or> a = AlignLeft \<or> a = AlignRight \<or> a = AlignHDistributed
              then indent d else 0)"
  using assms by (simp add: indent_def horizontalAlignment_def setHorizontalAlignment_def Let_def)

theorem setHorizontalAlignment_indent_witness:
  "indent (setIndent 3 default_format) \<noteq> 0
   \<and> indent (setHorizontalAlignment AlignHFill (setIndent 3 default_format)) = 0
   \<and> indent (setHorizontalAlignment AlignRight (setIndent 3 default_format)) = 3
   \<and> horizontalAlignment (setHorizontalAlignment AlignHFill (setIndent 3 default_format))
       = AlignHFill"
proof -
  have h: "indent (setIndent 3 default_format) \<noteq> 0"
    by (simp add: indent_def setIndent_def Let_def)
  have i: "indent (setIndent 3 default_format) = 3"
    by (simp add: indent_def setIndent_def Let_def)
  from h i setHorizontalAlignment_indent [OF h, of AlignHFill]
    setHorizontalAlignment_indent [OF h, of AlignRight]
  show ?thesis by simp
qed

text \<open>
  C10. When \<^verbatim>\<open>formatKey()\<close> is called while the whole-value, font, border or fill
  dirty flag is set, \<^verbatim>\<open>xfIndexValid()\<close> and \<^verbatim>\<open>dxfIndexValid()\<close> are false after
  the call, also when \<^verbatim>\<open>setXfIndex\<close> or \<^verbatim>\<open>setDxfIndex\<close> was called right before it.
\<close>

theorem formatKey_discards_indices:
  assumes "dirty d \<or> font_dirty (fontData d) \<or> border_dirty (borderData d)
           \<or> fill_dirty (fillData d)"
  shows "\<not> xfIndexValid (snd (formatKey h d)) \<and> \<not> dxfIndexValid (snd (formatKey h d))
         \<and> \<not> xfIndexValid (snd (formatKey h (setXfIndex i d)))
         \<and> \<not> dxfIndexValid (snd (formatKey h (setDxfIndex j d)))
         \<and> \<not> xfIndexValid (snd (formatKey h (setDxfIndex j (setXfIndex i d))))
         \<and> \<not> dxfIndexValid (snd (formatKey h (setDxfIndex j (setXfIndex i d))))"
  using assms formatKey_snd_invalid [of d h] formatKey_snd_invalid [of "setXfIndex i d" h]
    formatKey_snd_invalid [of "setDxfIndex j d" h]
    formatKey_snd_invalid [of "setDxfIndex j (setXfIndex i d)" h]
  by (simp add: xfIndexValid_def dxfIndexValid_def setXfIndex_def setDxfIndex_def)

theorem formatKey_discards_indices_witness:
  "font_dirty (fontData (setFontSize 12 (snd (formatKey plain_decls default_format))))
   \<and> \<not> xfIndexValid
         (snd (formatKey plain_decls
                (setXfIndex 5 (setFontSize 12 (snd (formatKey plain_decls default_format))))))"
proof -
  have h: "font_dirty (fontData (setFontSize 12 (snd (formatKey plain_decls default_format))))"
    by (simp add: setFontSize_def)
  from h formatKey_discards_indices
           [where d = "setFontSize 12 (snd (formatKey plain_decls default_format))"
              and h = plain_decls and i = 5 and j = 5]
  show ?thesis by blast
qed



text \<open>
  C5. \<^verbatim>\<open>a == b\<close> is true exactly when the keys that \<^verbatim>\<open>formatKey()\<close> returns for
  the two formats consist of the same bytes, whether the two handles point to the same
  private data or not, and \<^verbatim>\<open>a != b\<close> is true exactly when the bytes differ.
\<close>

theorem operator_eq_keys:
  "fst (operator_eq h a b w)
     = (bytesOf (fst (formatKey h (cells w a))) = bytesOf (fst (formatKey h (cells w b))))
   \<and> fst (operator_ne h a b w)
     = (bytesOf (fst (formatKey h (cells w a))) \<noteq> bytesOf (fst (formatKey h (cells w b))))"
  by (cases "a = b")
     (simp_all add: operator_eq_def operator_ne_def formatKey_of_def split_def Let_def
        formatKey_idem QByteArray_eq_def)

theorem operator_eq_keys_witness:
  "fst (operator_eq plain_decls 0 0 one_format)
   \<and> fst (operator_eq plain_decls 0 1 two_formats)
   \<and> \<not> fst (operator_ne plain_decls 0 1 two_formats)
   \<and> \<not> fst (operator_eq plain_decls 0 1 (mutate (SetHidden True) 1 two_formats))
   \<and> fst (operator_ne plain_decls 0 1 (mutate (SetHidden True) 1 two_formats))"
proof -
  have same: "cells two_formats 0 = cells two_formats 1"
    by (simp add: two_formats_def one_format_def Format_new_def empty_world_def)
  have c0: "cells (mutate (SetHidden True) 1 two_formats) 0 = default_format"
    by (simp add: mutate_def two_formats_def one_format_def Format_new_def empty_world_def)
  have c1: "cells (mutate (SetHidden True) 1 two_formats) 1 = setHidden True default_format"
    by (simp add: mutate_def two_formats_def one_format_def Format_new_def empty_world_def)
  have differ: "bytesOf (fst (formatKey plain_decls default_format))
                \<noteq> bytesOf (fst (formatKey plain_decls (setHidden True default_format)))"
    by (simp add: formatKey_fst fontKey_fst borderKey_fst fillKey_fst streamFields_def
          setHidden_def default_format_def FormatPrivate_init_def default_protection_def
          stream_bool_def)
  from same c0 c1 differ
    operator_eq_keys [of plain_decls 0 0 one_format]
    operator_eq_keys [of plain_decls 0 1 two_formats]
    operator_eq_keys [of plain_decls 0 1 "mutate (SetHidden True) 1 two_formats"]
  show ?thesis by simp
qed

text \<open>
  C3 (as amended). After a handle \<open>B\<close> has been copy-constructed or assigned from a
  handle \<open>A\<close>, both point to the same private data. A setter called on \<open>B\<close> writes
  that data in place: the getters of \<open>A\<close> and \<^verbatim>\<open>formatKey()\<close> on \<open>A\<close> return what
  they return for \<open>B\<close>, the data with the setter applied. The private data at every
  other address, such as that of an independently constructed format, is unchanged.
\<close>

theorem copy_shares_data:
  "fst (Format_copy A w) = A
   \<and> cells (mutate m (fst (Format_copy A w)) (snd (Format_copy A w))) A = call m (cells w A)
   \<and> (C \<noteq> A \<longrightarrow>
        cells (mutate m (fst (Format_copy A w)) (snd (Format_copy A w))) C = cells w C)
   \<and> fst (Format_assign B0 A w) = A
   \<and> cells (mutate m (fst (Format_assign B0 A w)) (snd (Format_assign B0 A w))) A
       = call m (cells w A)
   \<and> (C \<noteq> A \<longrightarrow>
        cells (mutate m (fst (Format_assign B0 A w)) (snd (Format_assign B0 A w))) C
          = cells w C)"
  by (simp add: Format_copy_def Format_assign_def mutate_def)

theorem copy_shares_data_witness:
  "(1::nat) \<noteq> 0
   \<and> fontSize (cells (mutate (SetFontSize 12) (fst (Format_copy 0 two_formats))
                        (snd (Format_copy 0 two_formats))) 0) = 12
   \<and> fontSize (cells (mutate (SetFontSize 12) (fst (Format_copy 0 two_formats))
                        (snd (Format_copy 0 two_formats))) 1)
       = fontSize (cells two_formats 1)"
proof -
  note t = copy_shares_data
             [where A = 0 and C = 1 and w = two_formats and m = "SetFontSize 12"
                and ?B0.0 = 0]
  from t have a:
    "cells (mutate (SetFontSize 12) (fst (Format_copy 0 two_formats))
              (snd (Format_copy 0 two_formats))) 0
     = call (SetFontSize 12) (cells two_formats 0)"
    by blast
  have ne: "(1::nat) \<noteq> 0" by simp
  from t have
    "(1::nat) \<noteq> 0 \<longrightarrow>
     cells (mutate (SetFontSize 12) (fst (Format_copy 0 two_formats))
              (snd (Format_copy 0 two_formats))) 1
     = cells two_formats 1"
    by blast
  with ne have b:
    "cells (mutate (SetFontSize 12) (fst (Format_copy 0 two_formats))
              (snd (Format_copy 0 two_formats))) 1
     = cells two_formats 1"
    by blast
  show ?thesis
    unfolding a b by (simp add: fontSize_def setFontSize_def)
qed

text \<open>
  C3 as stated fails: a format is constructed and given the font size 10, a second
  handle is copy-constructed from it, and \<^verbatim>\<open>setFontSize(12)\<close> is called on the copy;
  \<^verbatim>\<open>fontSize()\<close> of the first handle then returns 12.
\<close>

theorem fork_isolation_counterexample:
  "fontSize (cells (mutate (SetFontSize 10) 0 one_format) 0) = 10
   \<and> fontSize
        (cells (mutate (SetFontSize 12)
                  (fst (Format_copy 0 (mutate (SetFontSize 10) 0 one_format)))
                  (snd (Format_copy 0 (mutate (SetFontSize 10) 0 one_format)))) 0) = 12"
  by (simp add: fontSize_def setFontSize_def mutate_def Format_copy_def)

text \<open>
  C6. In every state reached from a freshly constructed format by public setters,
  \<^verbatim>\<open>textWrap()\<close> and \<^verbatim>\<open>shrinkToFit()\<close> are not both true:
  \<^verbatim>\<open>setTextWarp(true)\<close> clears shrink-to-fit, \<^verbatim>\<open>setShrinkToFit(true)\<close> clears
  word-wrap, and no other setter changes word-wrap or turns shrink-to-fit on.
\<close>

theorem wrap_shrink_exclusive:
  "\<not> (textWrap (calls ms (FormatPrivate_init nd fd default_alignment bd ld pd))
       \<and> shrinkToFit (calls ms (FormatPrivate_init nd fd default_alignment bd ld pd)))
   \<and> \<not> shrinkToFit (setTextWarp True d)
   \<and> \<not> textWrap (setShrinkToFit True d)
   \<and> (assigned m \<noteq> [TextWrap] \<and> assigned m \<noteq> [ShrinkToFit] \<longrightarrow>
        textWrap (call m d) = textWrap d \<and> (shrinkToFit (call m d) \<longrightarrow> shrinkToFit d))"
proof (intro conjI impI)
  show "\<not> (textWrap (calls ms (FormatPrivate_init nd fd default_alignment bd ld pd))
       \<and> shrinkToFit (calls ms (FormatPrivate_init nd fd default_alignment bd ld pd)))"
    unfolding textWrap_def shrinkToFit_def
    by (rule wrap_shrink_calls) (simp add: FormatPrivate_init_def default_alignment_def)
next
  show "\<not> shrinkToFit (setTextWarp True d)"
    by (simp add: shrinkToFit_def setTextWarp_def Let_def)
next
  show "\<not> textWrap (setShrinkToFit True d)"
    by (simp add: textWrap_def setShrinkToFit_def Let_def)
next
  assume a: "assigned m \<noteq> [TextWrap] \<and> assigned m \<noteq> [ShrinkToFit]"
  have 1: "m \<noteq> SetTextWarp b" for b using a by auto
  have 2: "m \<noteq> SetShrinkToFit b" for b using a by auto
  from other_calls_flags [OF 1 2, of d]
  show "textWrap (call m d) = textWrap d"
    and "shrinkToFit (call m d) \<Longrightarrow> shrinkToFit d"
    by (simp_all add: textWrap_def shrinkToFit_def)
qed

theorem wrap_shrink_exclusive_witness:
  "assigned (SetHorizontalAlignment AlignHFill) \<noteq> [TextWrap]
   \<and> assigned (SetHorizontalAlignment AlignHFill) \<noteq> [ShrinkToFit]
   \<and> textWrap (call (SetHorizontalAlignment AlignHFill) (setTextWarp True default_format))
   \<and> \<not> shrinkToFit
         (call (SetHorizontalAlignment AlignHFill) (setShrinkToFit True default_format))
   \<and> \<not> (textWrap (calls [SetTextWarp True, SetShrinkToFit True] default_format)
         \<and> shrinkToFit (calls [SetTextWarp True, SetShrinkToFit True] default_format))"
  using wrap_shrink_exclusive
          [where m = "SetHorizontalAlignment AlignHFill" and d = "setTextWarp True default_format"
             and ms = "[SetTextWarp True, SetShrinkToFit True]"
             and nd = default_number and fd = default_font and bd = default_border
             and ld = default_fill and pd = default_protection]
  by (simp add: default_format_def textWrap_def shrinkToFit_def setTextWarp_def
        setShrinkToFit_def setHorizontalAlignment_def Let_def FormatPrivate_init_def
        default_alignment_def)



end
